theory Spec2Isabelle
  imports Complex_Main "HOL-Library.Sublist"
begin

section \<open>Values of the host framework\<close>

text \<open>
  The mutator of \<^verbatim>\<open>nni/nas/pytorch/mutator.py\<close> works on tensors of the host framework.
  A mask is a one-dimensional tensor: it has a type name (what \<^verbatim>\<open>mask.type()\<close> returns,
  such as \<^verbatim>\<open>torch.BoolTensor\<close> or \<^verbatim>\<open>torch.cuda.FloatTensor\<close>) and a sequence of
  entries. Iterating over it yields its entries one by one, and an entry used as a condition
  (\<^verbatim>\<open>if m\<close>) is true exactly when it is not zero (not \<^verbatim>\<open>False\<close> for a boolean entry).
  The carrier \<open>'f\<close> of the floating-point entries is left open.
\<close>

datatype 'f scalar = BoolS bool | FloatS 'f | IntS int

definition truth :: "'f::zero scalar \<Rightarrow> bool" where
  "truth m = (case m of BoolS b \<Rightarrow> b | FloatS x \<Rightarrow> x \<noteq> 0 | IntS n \<Rightarrow> n \<noteq> 0)"

record 'f mask =
  mtype :: string
  elems :: "'f scalar list"

text \<open>
  Python's \<^verbatim>\<open>sub in s\<close> on strings: \<open>sub\<close> occurs in \<open>s\<close> as a contiguous piece.
\<close>

fun py_in :: "string \<Rightarrow> string \<Rightarrow> bool" where
  "py_in sub [] = (sub = [])"
| "py_in sub (c # s) = (prefix sub (c # s) \<or> py_in sub s)"

text \<open>
  The operations on output values that the mutator takes from the host framework and from
  Python, as parameters: the product of an output with a mask entry, a Python integer as a
  value, \<^verbatim>\<open>+\<close>, \<^verbatim>\<open>/\<close> and \<^verbatim>\<open>torch.cat(tensors, dim)\<close>. No law is assumed of them.
\<close>

record ('v, 'f) torch =
  tensor_mul :: "'v \<Rightarrow> 'f scalar \<Rightarrow> 'v"
  py_int :: "int \<Rightarrow> 'v"
  tensor_add :: "'v \<Rightarrow> 'v \<Rightarrow> 'v"
  tensor_div :: "'v \<Rightarrow> 'v \<Rightarrow> 'v"
  cat :: "'v list \<Rightarrow> nat \<Rightarrow> 'v"

section \<open>Errors\<close>

text \<open>
  Every \<^verbatim>\<open>raise\<close> and \<^verbatim>\<open>assert\<close> of the source is a value: the three
  \<^verbatim>\<open>ValueError\<close>s (unrecognized mask, unrecognized reduction policy, key not found in the
  decision cache), the \<^verbatim>\<open>AssertionError\<close> of the mask length checks (with the mask and the
  expected length of its message) and the \<^verbatim>\<open>NotImplementedError\<close> of the two sampling
  methods that a subclass has to override.
\<close>

datatype ('k, 'f) error =
    UnrecognizedMask
  | UnrecognizedReduction string
  | NotInCache 'k
  | InvalidMask "'f mask" int
  | NotImplementedError

section \<open>Selection with a mask\<close>

text \<open>
  A callable (\<^verbatim>\<open>map_fn\<close>, a candidate operation) may have effects: it takes the state of
  the world and returns its output with the new state. The two list comprehensions of
  \<^verbatim>\<open>_select_with_mask\<close> run over the pairs of \<^verbatim>\<open>zip(candidates, mask)\<close> from left to
  right and call \<^verbatim>\<open>map_fn\<close> only after the condition \<^verbatim>\<open>if m\<close> held. Callables and
  the framework's operations are total here: an exception raised inside a candidate
  operation or inside the framework is not an error of this file and is not modelled.
\<close>

fun select_bool :: "('c \<Rightarrow> 's \<Rightarrow> 'v \<times> 's) \<Rightarrow> ('c \<times> 'f::zero scalar) list \<Rightarrow> 's \<Rightarrow> 'v list \<times> 's" where
  "select_bool map_fn [] s = ([], s)"
| "select_bool map_fn ((cand, m) # rest) s =
     (if truth m then
        (case map_fn cand s of (y, s1) \<Rightarrow>
           (case select_bool map_fn rest s1 of (out, s2) \<Rightarrow> (y # out, s2)))
      else select_bool map_fn rest s)"

fun select_float :: "('v, 'f::zero) torch \<Rightarrow> ('c \<Rightarrow> 's \<Rightarrow> 'v \<times> 's) \<Rightarrow> ('c \<times> 'f scalar) list \<Rightarrow> 's \<Rightarrow> 'v list \<times> 's" where
  "select_float T map_fn [] s = ([], s)"
| "select_float T map_fn ((cand, m) # rest) s =
     (if truth m then
        (case map_fn cand s of (y, s1) \<Rightarrow>
           (case select_float T map_fn rest s1 of (out, s2) \<Rightarrow> (tensor_mul T y m # out, s2)))
      else select_float T map_fn rest s)"

definition select_with_mask ::
  "('v, 'f::zero) torch \<Rightarrow> ('c \<Rightarrow> 's \<Rightarrow> 'v \<times> 's) \<Rightarrow> 'c list \<Rightarrow> 'f mask \<Rightarrow> 's \<Rightarrow> (('k, 'f) error + 'v list) \<times> 's" where
  "select_with_mask T map_fn candidates msk s =
     (if py_in ''BoolTensor'' (mtype msk) then
        (case select_bool map_fn (zip candidates (elems msk)) s of (out, s1) \<Rightarrow> (Inr out, s1))
      else if py_in ''FloatTensor'' (mtype msk) then
        (case select_float T map_fn (zip candidates (elems msk)) s of (out, s1) \<Rightarrow> (Inr out, s1))
      else (Inl UnrecognizedMask, s))"

text \<open>
  Reference notions for the statements: calling a callable on each element of a list in
  turn, the positions of a mask whose entry is true, and a function that has no effect but
  to append its argument to a log of calls.
\<close>

fun call_each :: "('c \<Rightarrow> 's \<Rightarrow> 'v \<times> 's) \<Rightarrow> 'c list \<Rightarrow> 's \<Rightarrow> 'v list \<times> 's" where
  "call_each f [] s = ([], s)"
| "call_each f (c # cs) s =
     (case f c s of (y, s1) \<Rightarrow> (case call_each f cs s1 of (ys, s2) \<Rightarrow> (y # ys, s2)))"

definition true_positions :: "'f::zero scalar list \<Rightarrow> nat \<Rightarrow> nat list" where
  "true_positions ms n = filter (\<lambda>i. truth (ms ! i)) [0..<n]"

definition logged :: "('c \<Rightarrow> 'v) \<Rightarrow> 'c \<Rightarrow> 'c list \<Rightarrow> 'v \<times> 'c list" where
  "logged g c calls = (g c, calls @ [c])"

section \<open>Reduction of the surviving outputs\<close>

text \<open>
  What \<^verbatim>\<open>_tensor_reduction\<close> returns: the list itself, \<^verbatim>\<open>None\<close>, or one value.
\<close>

datatype 'v reduced = TensorList "'v list" | NoneValue | Tensor 'v

text \<open>
  Python's built-in \<^verbatim>\<open>sum\<close>: the accumulator starts as the integer \<open>0\<close> and each
  element is added to it on the right, from the first to the last.
\<close>

fun py_sum_from :: "('v, 'f) torch \<Rightarrow> 'v \<Rightarrow> 'v list \<Rightarrow> 'v" where
  "py_sum_from T acc [] = acc"
| "py_sum_from T acc (x # xs) = py_sum_from T (tensor_add T acc x) xs"

definition py_sum :: "('v, 'f) torch \<Rightarrow> 'v list \<Rightarrow> 'v" where
  "py_sum T xs = py_sum_from T (py_int T 0) xs"

definition tensor_reduction :: "('v, 'f) torch \<Rightarrow> string \<Rightarrow> 'v list \<Rightarrow> ('k, 'f) error + 'v reduced" where
  "tensor_reduction T reduction_type tensor_list =
     (if reduction_type = ''none'' then Inr (TensorList tensor_list)
      else if tensor_list = [] then Inr NoneValue
      else if length tensor_list = 1 then Inr (Tensor (tensor_list ! 0))
      else if reduction_type = ''sum'' then Inr (Tensor (py_sum T tensor_list))
      else if reduction_type = ''mean'' then
        Inr (Tensor (tensor_div T (py_sum T tensor_list) (py_int T (int (length tensor_list)))))
      else if reduction_type = ''concat'' then Inr (Tensor (cat T tensor_list 1))
      else Inl (UnrecognizedReduction reduction_type))"

section \<open>The mutator and its decision cache\<close>

text \<open>
  The state of a mutator is its decision cache \<^verbatim>\<open>self._cache\<close>, a dictionary from the
  keys of the choice sites to decisions (masks), together with the rest of the world that
  the callables it invokes may change. A callable receives the world, never the cache.
  The methods \<^verbatim>\<open>sample_search\<close> and \<^verbatim>\<open>sample_final\<close> are to be overridden by a subclass;
  they are given as a record, and \<open>base_sampler\<close> is what the class itself provides.
  Of the constructor, only the assignment of the empty dictionary to the cache is in this
  file (\<open>init\<close>); the call \<^verbatim>\<open>logger.debug\<close> of \<^verbatim>\<open>_get_decision\<close> is left out.
\<close>

record ('k, 'f, 's) mutator =
  cache :: "'k \<rightharpoonup> 'f mask"
  world :: 's

record ('k, 'f, 's) sampler =
  sample_search :: "'s \<Rightarrow> (('k, 'f) error + ('k \<rightharpoonup> 'f mask)) \<times> 's"
  sample_final :: "'s \<Rightarrow> (('k, 'f) error + ('k \<rightharpoonup> 'f mask)) \<times> 's"

definition base_sampler :: "('k, 'f, 's) sampler" where
  "base_sampler =
     \<lparr>sample_search = (\<lambda>s. (Inl NotImplementedError, s)),
      sample_final = (\<lambda>s. (Inl NotImplementedError, s))\<rparr>"

definition init :: "'s \<Rightarrow> ('k, 'f, 's) mutator" where
  "init model = \<lparr>cache = Map.empty, world = model\<rparr>"

definition reset :: "('k, 'f, 's) sampler \<Rightarrow> ('k, 'f, 's) mutator \<Rightarrow> (('k, 'f) error + unit) \<times> ('k, 'f, 's) mutator" where
  "reset S M =
     (case sample_search S (world M) of
        (Inl e, w) \<Rightarrow> (Inl e, M\<lparr>world := w\<rparr>)
      | (Inr decisions, w) \<Rightarrow> (Inr (), M\<lparr>cache := decisions, world := w\<rparr>))"

definition export :: "('k, 'f, 's) sampler \<Rightarrow> ('k, 'f, 's) mutator \<Rightarrow> (('k, 'f) error + ('k \<rightharpoonup> 'f mask)) \<times> ('k, 'f, 's) mutator" where
  "export S M = (case sample_final S (world M) of (r, w) \<Rightarrow> (r, M\<lparr>world := w\<rparr>))"

text \<open>
  A choice site has a key and a reduction policy; a layer choice has its candidate
  operations \<^verbatim>\<open>choices\<close> besides, an input choice its declared number of candidates
  \<^verbatim>\<open>n_candidates\<close>.
\<close>

record 'k mutable =
  key :: 'k
  reduction :: string

record ('k, 'i, 'v, 's) layer_choice = "'k mutable" +
  choices :: "('i \<Rightarrow> 's \<Rightarrow> 'v \<times> 's) list"

record 'k input_choice = "'k mutable" +
  n_candidates :: int

definition get_decision :: "('k, 'f, 's) mutator \<Rightarrow> ('k, 'z) mutable_scheme \<Rightarrow> ('k, 'f) error + 'f mask" where
  "get_decision M mutable =
     (case cache M (key mutable) of
        None \<Rightarrow> Inl (NotInCache (key mutable))
      | Some result \<Rightarrow> Inr result)"

definition on_forward_layer_choice ::
  "('v, 'f::zero) torch \<Rightarrow> ('k, 'f, 's) mutator \<Rightarrow> ('k, 'i, 'v, 's) layer_choice \<Rightarrow> 'i
     \<Rightarrow> (('k, 'f) error + 'v reduced \<times> 'f mask) \<times> ('k, 'f, 's) mutator" where
  "on_forward_layer_choice T M mutable inputs =
     (case get_decision M mutable of
        Inl e \<Rightarrow> (Inl e, M)
      | Inr msk \<Rightarrow>
          if length (elems msk) \<noteq> length (choices mutable)
          then (Inl (InvalidMask msk (int (length (choices mutable)))), M)
          else
            (case select_with_mask T (\<lambda>(op, args). op args)
                    (map (\<lambda>choice. (choice, inputs)) (choices mutable)) msk (world M) of
               (Inl e, w) \<Rightarrow> (Inl e, M\<lparr>world := w\<rparr>)
             | (Inr out, w) \<Rightarrow>
                 (case tensor_reduction T (reduction mutable) out of
                    Inl e \<Rightarrow> (Inl e, M\<lparr>world := w\<rparr>)
                  | Inr r \<Rightarrow> (Inr (r, msk), M\<lparr>world := w\<rparr>))))"

definition on_forward_input_choice ::
  "('v, 'f::zero) torch \<Rightarrow> ('k, 'f, 's) mutator \<Rightarrow> 'k input_choice \<Rightarrow> 'v list
     \<Rightarrow> (('k, 'f) error + 'v reduced \<times> 'f mask) \<times> ('k, 'f, 's) mutator" where
  "on_forward_input_choice T M mutable tensor_list =
     (case get_decision M mutable of
        Inl e \<Rightarrow> (Inl e, M)
      | Inr msk \<Rightarrow>
          if int (length (elems msk)) \<noteq> n_candidates mutable
          then (Inl (InvalidMask msk (n_candidates mutable)), M)
          else
            (case select_with_mask T (\<lambda>x s. (x, s)) (map (\<lambda>t. t) tensor_list) msk (world M) of
               (Inl e, w) \<Rightarrow> (Inl e, M\<lparr>world := w\<rparr>)
             | (Inr out, w) \<Rightarrow>
                 (case tensor_reduction T (reduction mutable) out of
                    Inl e \<Rightarrow> (Inl e, M\<lparr>world := w\<rparr>)
                  | Inr r \<Rightarrow> (Inr (r, msk), M\<lparr>world := w\<rparr>))))"

text \<open>
  Reference notion for the statements: lines 84-85 and 107-108 of the source, the selection
  followed by the reduction, with the mask returned beside the reduced output.
\<close>

definition select_then_reduce ::
  "('v, 'f::zero) torch \<Rightarrow> ('c \<Rightarrow> 's \<Rightarrow> 'v \<times> 's) \<Rightarrow> 'c list \<Rightarrow> 'f mask \<Rightarrow> string
     \<Rightarrow> ('k, 'f, 's) mutator \<Rightarrow> (('k, 'f) error + 'v reduced \<times> 'f mask) \<times> ('k, 'f, 's) mutator" where
  "select_then_reduce T map_fn candidates msk policy M =
     (case select_with_mask T map_fn candidates msk (world M) of
        (r, w) \<Rightarrow>
          ((case r of
              Inl e \<Rightarrow> Inl e
            | Inr out \<Rightarrow>
                (case tensor_reduction T policy out of
                   Inl e \<Rightarrow> Inl e
                 | Inr v \<Rightarrow> Inr (v, msk))),
           M\<lparr>world := w\<rparr>))"

section \<open>A small instance of the framework's operations\<close>

text \<open>
  The concrete inputs below need concrete operations. Values are numbers and matrices
  (lists of rows) over the reals; the operations act entry by entry, a number combines with
  every entry of a matrix, and concatenation along dimension 1 joins the rows of the same
  index. This instance only serves to evaluate the functions above on examples.
\<close>

datatype tval = Num real | Mat "real list list"

definition weight :: "real scalar \<Rightarrow> real" where
  "weight m = (case m of BoolS b \<Rightarrow> (if b then 1 else 0) | FloatS x \<Rightarrow> x | IntS n \<Rightarrow> of_int n)"

fun tv_map2 :: "(real \<Rightarrow> real \<Rightarrow> real) \<Rightarrow> tval \<Rightarrow> tval \<Rightarrow> tval" where
  "tv_map2 f (Num a) (Num b) = Num (f a b)"
| "tv_map2 f (Num a) (Mat n) = Mat (map (map (f a)) n)"
| "tv_map2 f (Mat m) (Num b) = Mat (map (map (\<lambda>x. f x b)) m)"
| "tv_map2 f (Mat m) (Mat n) = Mat (map2 (map2 f) m n)"

fun rows :: "tval \<Rightarrow> real list list" where
  "rows (Num a) = [[a]]"
| "rows (Mat m) = m"

definition tv_cat :: "tval list \<Rightarrow> nat \<Rightarrow> tval" where
  "tv_cat ts axis =
     (if axis = 0 then Mat (concat (map rows ts)) else Mat (map concat (transpose (map rows ts))))"

definition tv_torch :: "(tval, real) torch" where
  "tv_torch =
     \<lparr>tensor_mul = (\<lambda>y m. tv_map2 (*) y (Num (weight m))),
      py_int = (\<lambda>n. Num (of_int n)),
      tensor_add = tv_map2 (+),
      tensor_div = tv_map2 (/),
      cat = tv_cat\<rparr>"

text \<open>
  A sampler that decides the site \<^verbatim>\<open>conv\<close> only, and choice sites to try the callbacks on.
  The world is the number of calls of candidate operations made so far.
\<close>

definition demo_mask :: "real mask" where
  "demo_mask = \<lparr>mtype = ''torch.BoolTensor'', elems = [BoolS True, BoolS False, BoolS True]\<rparr>"

definition demo_sampler :: "(string, real, nat) sampler" where
  "demo_sampler =
     \<lparr>sample_search = (\<lambda>n. (Inr [''conv'' \<mapsto> demo_mask], n)),
      sample_final = (\<lambda>n. (Inr [''conv'' \<mapsto> demo_mask\<lparr>elems := [BoolS False, BoolS False, BoolS True]\<rparr>], n))\<rparr>"

definition demo_layer :: "string \<Rightarrow> nat \<Rightarrow> (string, real, tval, nat) layer_choice" where
  "demo_layer k n =
     \<lparr>key = k, reduction = ''sum'',
      choices = take n [\<lambda>x c. (Num (x + 1), Suc c), \<lambda>x c. (Num (x + 2), Suc c),
                        \<lambda>x c. (Num (x * 3), Suc c)]\<rparr>"

definition demo_input :: "string \<Rightarrow> int \<Rightarrow> string input_choice" where
  "demo_input k n = \<lparr>key = k, reduction = ''concat'', n_candidates = n\<rparr>"

section \<open>Properties of the selection\<close>

text \<open>
  Both comprehensions call \<open>map_fn\<close> exactly on the candidates paired with a true mask
  entry, in order; the weighted one multiplies each output by its entry afterwards.
\<close>

lemma select_bool_call_each:
  "select_bool f ps s = call_each f (map fst (filter (\<lambda>p. truth (snd p)) ps)) s"
  by (induction ps arbitrary: s) (auto split: prod.splits)

lemma select_float_call_each:
  "select_float T f ps s =
     (case call_each f (map fst (filter (\<lambda>p. truth (snd p)) ps)) s of
        (ys, s1) \<Rightarrow> (map2 (tensor_mul T) ys (map snd (filter (\<lambda>p. truth (snd p)) ps)), s1))"
  by (induction ps arbitrary: s) (auto split: prod.splits)

text \<open>Filtering a list is picking the elements at the positions that pass the test.\<close>

lemma filter_by_index:
  "filter P ps = map ((!) ps) (filter (\<lambda>i. P (ps ! i)) [0..<length ps])"
proof (induction ps rule: rev_induct)
  case Nil
  show ?case by simp
next
  case (snoc p ps)
  have a: "filter (\<lambda>i. P ((ps @ [p]) ! i)) [0..<length ps] = filter (\<lambda>i. P (ps ! i)) [0..<length ps]"
    by (rule filter_cong) (auto simp: nth_append)
  have b: "map ((!) (ps @ [p])) (filter (\<lambda>i. P (ps ! i)) [0..<length ps])
         = map ((!) ps) (filter (\<lambda>i. P (ps ! i)) [0..<length ps])"
    by (rule map_cong) (auto simp: nth_append)
  show ?case using snoc.IH by (simp add: a b)
qed

lemma zip_selected_fst:
  "map fst (filter (\<lambda>p. truth (snd p)) (zip cs ms))
     = map ((!) cs) (true_positions ms (min (length cs) (length ms)))"
proof -
  let ?n = "min (length cs) (length ms)"
  have "map fst (filter (\<lambda>p. truth (snd p)) (zip cs ms))
      = map fst (map ((!) (zip cs ms)) (filter (\<lambda>i. truth (snd (zip cs ms ! i))) [0..<length (zip cs ms)]))"
    by (subst filter_by_index) simp
  also have "\<dots> = map (\<lambda>i. fst (zip cs ms ! i)) (filter (\<lambda>i. truth (snd (zip cs ms ! i))) [0..<?n])"
    by (simp add: min.commute)
  also have "filter (\<lambda>i. truth (snd (zip cs ms ! i))) [0..<?n] = filter (\<lambda>i. truth (ms ! i)) [0..<?n]"
    by (rule filter_cong) auto
  also have "map (\<lambda>i. fst (zip cs ms ! i)) (filter (\<lambda>i. truth (ms ! i)) [0..<?n])
           = map ((!) cs) (filter (\<lambda>i. truth (ms ! i)) [0..<?n])"
    by (rule map_cong) auto
  finally show ?thesis by (simp add: true_positions_def)
qed

lemma zip_selected_snd:
  "map snd (filter (\<lambda>p. truth (snd p)) (zip cs ms))
     = map ((!) ms) (true_positions ms (min (length cs) (length ms)))"
proof -
  let ?n = "min (length cs) (length ms)"
  have "map snd (filter (\<lambda>p. truth (snd p)) (zip cs ms))
      = map snd (map ((!) (zip cs ms)) (filter (\<lambda>i. truth (snd (zip cs ms ! i))) [0..<length (zip cs ms)]))"
    by (subst filter_by_index) simp
  also have "\<dots> = map (\<lambda>i. snd (zip cs ms ! i)) (filter (\<lambda>i. truth (snd (zip cs ms ! i))) [0..<?n])"
    by (simp add: min.commute)
  also have "filter (\<lambda>i. truth (snd (zip cs ms ! i))) [0..<?n] = filter (\<lambda>i. truth (ms ! i)) [0..<?n]"
    by (rule filter_cong) auto
  also have "map (\<lambda>i. snd (zip cs ms ! i)) (filter (\<lambda>i. truth (ms ! i)) [0..<?n])
           = map ((!) ms) (filter (\<lambda>i. truth (ms ! i)) [0..<?n])"
    by (rule map_cong) auto
  finally show ?thesis by (simp add: true_positions_def)
qed

lemma call_each_logged: "call_each (logged g) cs calls = (map g cs, calls @ cs)"
  by (induction cs arbitrary: calls) (auto simp: logged_def)


lemma truth_simps:
  "truth (BoolS b) = b" "truth (FloatS x) = (x \<noteq> 0)" "truth (IntS n) = (n \<noteq> 0)"
  by (simp_all add: truth_def)

lemma select_with_mask_bool_call_each:
  assumes "py_in ''BoolTensor'' (mtype msk)"
  shows "select_with_mask T map_fn candidates msk s =
           (case call_each map_fn
                   (map ((!) candidates)
                      (true_positions (elems msk) (min (length candidates) (length (elems msk))))) s of
              (out, s1) \<Rightarrow> (Inr out, s1))"
  using assms by (simp add: select_with_mask_def select_bool_call_each zip_selected_fst)

text \<open>
  C1. For a boolean-typed mask (\<^verbatim>\<open>"BoolTensor" in mask.type()\<close>) and a candidate list of the
  same length \<open>N\<close>, \<^verbatim>\<open>_select_with_mask\<close> succeeds, and what it does is to call \<open>map_fn\<close>
  on the candidates at the positions \<open>i < N\<close> whose mask entry is true, in increasing order
  of \<open>i\<close>, and on nothing else: its outputs are the outputs of those calls and the world it
  leaves is the one those calls leave. In particular, for a function \<open>g\<close> that logs its calls,
  the outputs are \<open>g\<close> of the candidates at the true positions and the log grows by exactly
  those candidates. A boolean entry \<open>BoolS b\<close> is true when \<open>b\<close> is (\<open>truth_simps\<close>).
\<close>

theorem select_with_mask_bool:
  assumes "py_in ''BoolTensor'' (mtype msk)"
    and "length (elems msk) = length candidates"
  shows "select_with_mask T map_fn candidates msk s =
           (case call_each map_fn
                   (map ((!) candidates) (true_positions (elems msk) (length candidates))) s of
              (out, s1) \<Rightarrow> (Inr out, s1))
       \<and> select_with_mask T (logged g) candidates msk calls =
           (Inr (map g (map ((!) candidates) (true_positions (elems msk) (length candidates)))),
            calls @ map ((!) candidates) (true_positions (elems msk) (length candidates)))"
  using assms by (simp add: select_with_mask_bool_call_each call_each_logged)

theorem select_with_mask_bool_witness:
  "py_in ''BoolTensor'' ''torch.BoolTensor''
   \<and> (select_with_mask tv_torch (logged (\<lambda>x. Num (x + 1))) [10, 20, 30 :: real]
        \<lparr>mtype = ''torch.BoolTensor'', elems = [BoolS True, BoolS False, BoolS True]\<rparr> []
         :: ((string, real) error + tval list) \<times> real list)
      = (Inr [Num 11, Num 31], [10, 30])"
proof -
  let ?m = "\<lparr>mtype = ''torch.BoolTensor'', elems = [BoolS True, BoolS False, BoolS True :: real scalar]\<rparr>"
  have t: "py_in ''BoolTensor'' (mtype ?m)" by simp
  have l: "length (elems ?m) = length [10, 20, 30 :: real]" by simp
  show ?thesis
    by (simp add: select_with_mask_bool [OF t l] true_positions_def truth_simps logged_def)
qed

lemma map2_same_index:
  "map2 f (map a ps) (map b ps) = map (\<lambda>i. f (a i) (b i)) ps"
  by (induction ps) auto

lemma select_with_mask_float_call_each:
  assumes "\<not> py_in ''BoolTensor'' (mtype msk)" and "py_in ''FloatTensor'' (mtype msk)"
  shows "select_with_mask T map_fn candidates msk s =
           (case call_each map_fn
                   (map ((!) candidates)
                      (true_positions (elems msk) (min (length candidates) (length (elems msk))))) s of
              (ys, s1) \<Rightarrow>
                (Inr (map2 (tensor_mul T) ys
                        (map ((!) (elems msk))
                           (true_positions (elems msk) (min (length candidates) (length (elems msk)))))),
                 s1))"
  using assms
  by (simp add: select_with_mask_def select_float_call_each zip_selected_fst zip_selected_snd
      split: prod.splits)

text \<open>
  C2. For a float-typed mask (\<^verbatim>\<open>"FloatTensor" in mask.type()\<close>, the test that the source
  reaches when the type name does not contain \<^verbatim>\<open>BoolTensor\<close>) and a candidate list of the
  same length \<open>N\<close>, \<^verbatim>\<open>_select_with_mask\<close> succeeds: it calls \<open>map_fn\<close> on the candidates at
  the positions whose weight is not zero, in increasing order, and on nothing else, and
  returns each of those outputs multiplied by its weight. For a function \<open>g\<close> that logs its
  calls, the result lists \<open>g (candidates ! i) * (mask ! i)\<close> for the positions \<open>i\<close> of
  non-zero weight and the log grows by exactly the candidates at those positions. A float
  entry \<open>FloatS x\<close> is true when \<open>x \<noteq> 0\<close> (\<open>truth_simps\<close>).
\<close>

theorem select_with_mask_float:
  assumes "\<not> py_in ''BoolTensor'' (mtype msk)"
    and "py_in ''FloatTensor'' (mtype msk)"
    and "length (elems msk) = length candidates"
  shows "select_with_mask T map_fn candidates msk s =
           (case call_each map_fn
                   (map ((!) candidates) (true_positions (elems msk) (length candidates))) s of
              (ys, s1) \<Rightarrow>
                (Inr (map2 (tensor_mul T) ys
                        (map ((!) (elems msk)) (true_positions (elems msk) (length candidates)))),
                 s1))
       \<and> select_with_mask T (logged g) candidates msk calls =
           (Inr (map (\<lambda>i. tensor_mul T (g (candidates ! i)) (elems msk ! i))
                   (true_positions (elems msk) (length candidates))),
            calls @ map ((!) candidates) (true_positions (elems msk) (length candidates)))"
  using assms
  by (simp add: select_with_mask_float_call_each call_each_logged map2_same_index)

theorem select_with_mask_float_witness:
  "\<not> py_in ''BoolTensor'' ''torch.FloatTensor'' \<and> py_in ''FloatTensor'' ''torch.FloatTensor''
   \<and> (select_with_mask tv_torch (logged Num) [10, 20, 30 :: real]
        \<lparr>mtype = ''torch.FloatTensor'', elems = [FloatS (1 / 2), FloatS 0, FloatS 2]\<rparr> []
         :: ((string, real) error + tval list) \<times> real list)
      = (Inr [Num 5, Num 60], [10, 30])"
proof -
  let ?m = "\<lparr>mtype = ''torch.FloatTensor'', elems = [FloatS (1 / 2), FloatS 0, FloatS 2 :: real scalar]\<rparr>"
  have b: "\<not> py_in ''BoolTensor'' (mtype ?m)" by simp
  have f: "py_in ''FloatTensor'' (mtype ?m)" by simp
  have l: "length (elems ?m) = length [10, 20, 30 :: real]" by simp
  show ?thesis
    by (simp add: select_with_mask_float [OF b f l] true_positions_def truth_simps logged_def
        tv_torch_def weight_def)
qed

text \<open>
  C8. A mask whose type name contains neither \<^verbatim>\<open>BoolTensor\<close> nor \<^verbatim>\<open>FloatTensor\<close> makes
  \<^verbatim>\<open>_select_with_mask\<close> raise the unrecognized-mask error, whatever the candidates and
  \<open>map_fn\<close> are, before any call of \<open>map_fn\<close>: the world is unchanged.
\<close>

theorem select_with_mask_unrecognized:
  assumes "\<not> py_in ''BoolTensor'' (mtype msk)" and "\<not> py_in ''FloatTensor'' (mtype msk)"
  shows "select_with_mask T map_fn candidates msk s = (Inl UnrecognizedMask, s)"
  using assms by (simp add: select_with_mask_def)

theorem select_with_mask_unrecognized_witness:
  "\<not> py_in ''BoolTensor'' ''torch.LongTensor'' \<and> \<not> py_in ''FloatTensor'' ''torch.LongTensor''
   \<and> (select_with_mask tv_torch (logged Num) [10, 20 :: real]
        \<lparr>mtype = ''torch.LongTensor'', elems = [IntS 1, IntS 0]\<rparr> []
         :: ((string, real) error + tval list) \<times> real list)
      = (Inl UnrecognizedMask, [])"
proof -
  let ?m = "\<lparr>mtype = ''torch.LongTensor'', elems = [IntS 1, IntS 0 :: real scalar]\<rparr>"
  have b: "\<not> py_in ''BoolTensor'' (mtype ?m)" by simp
  have f: "\<not> py_in ''FloatTensor'' (mtype ?m)" by simp
  show ?thesis
    by (simp add: select_with_mask_unrecognized [OF b f])
qed

text \<open>
  \<^verbatim>\<open>zip\<close> stops at the end of the shorter list.
\<close>

lemma zip_take_min:
  "zip (take (min (length xs) (length ys)) xs) (take (min (length xs) (length ys)) ys) = zip xs ys"
  by (simp add: take_zip [symmetric])

lemma select_bool_length:
  "select_bool f ps s = (out, s1) \<Longrightarrow> length out \<le> length ps"
proof (induction ps arbitrary: s out s1)
  case Nil
  then show ?case by simp
next
  case (Cons p ps)
  obtain cand m where p: "p = (cand, m)" by (cases p)
  show ?case
  proof (cases "truth m")
    case True
    obtain y t where y: "f cand s = (y, t)" by (cases "f cand s")
    obtain out' t' where r: "select_bool f ps t = (out', t')" by (cases "select_bool f ps t")
    from Cons.prems p True y r have "out = y # out'" by simp
    with Cons.IH [OF r] show ?thesis by simp
  next
    case False
    with Cons.prems p have "select_bool f ps s = (out, s1)" by simp
    from Cons.IH [OF this] show ?thesis by simp
  qed
qed

lemma select_float_length:
  "select_float T f ps s = (out, s1) \<Longrightarrow> length out \<le> length ps"
proof (induction ps arbitrary: s out s1)
  case Nil
  then show ?case by simp
next
  case (Cons p ps)
  obtain cand m where p: "p = (cand, m)" by (cases p)
  show ?case
  proof (cases "truth m")
    case True
    obtain y t where y: "f cand s = (y, t)" by (cases "f cand s")
    obtain out' t' where r: "select_float T f ps t = (out', t')" by (cases "select_float T f ps t")
    from Cons.prems p True y r have "out = tensor_mul T y m # out'" by simp
    with Cons.IH [OF r] show ?thesis by simp
  next
    case False
    with Cons.prems p have "select_float T f ps s = (out, s1)" by simp
    from Cons.IH [OF this] show ?thesis by simp
  qed
qed

text \<open>
  C10. \<^verbatim>\<open>_select_with_mask\<close> checks no length. For a mask whose type name contains
  \<^verbatim>\<open>BoolTensor\<close> or \<^verbatim>\<open>FloatTensor\<close> and any candidate list, of the same length or not, it
  raises no error and returns at most \<open>n = min (len candidates) (len mask)\<close> outputs. What
  it returns is the selection over the first \<open>n\<close> pairs: it calls \<open>map_fn\<close> on the
  candidates at the positions \<open>i < n\<close> whose mask entry is true, in increasing order, and on
  nothing else, and returns the outputs of those calls (for a float-typed mask, each
  multiplied by its weight). Its result and effects are therefore those on the first \<open>n\<close>
  candidates and mask entries alone: the surplus of the longer one is ignored.
\<close>

theorem select_with_mask_no_length_check:
  assumes "py_in ''BoolTensor'' (mtype msk) \<or> py_in ''FloatTensor'' (mtype msk)"
  shows "(\<exists>out s1. select_with_mask T map_fn candidates msk s = (Inr out, s1)
            \<and> length out \<le> min (length candidates) (length (elems msk)))
       \<and> (py_in ''BoolTensor'' (mtype msk) \<longrightarrow>
            select_with_mask T map_fn candidates msk s =
              (case call_each map_fn
                      (map ((!) candidates)
                         (true_positions (elems msk) (min (length candidates) (length (elems msk))))) s of
                 (out, s1) \<Rightarrow> (Inr out, s1)))
       \<and> (\<not> py_in ''BoolTensor'' (mtype msk) \<longrightarrow>
            select_with_mask T map_fn candidates msk s =
              (case call_each map_fn
                      (map ((!) candidates)
                         (true_positions (elems msk) (min (length candidates) (length (elems msk))))) s of
                 (ys, s1) \<Rightarrow>
                   (Inr (map2 (tensor_mul T) ys
                           (map ((!) (elems msk))
                              (true_positions (elems msk)
                                 (min (length candidates) (length (elems msk)))))),
                    s1)))
       \<and> select_with_mask T map_fn candidates msk s =
           select_with_mask T map_fn
             (take (min (length candidates) (length (elems msk))) candidates)
             (msk\<lparr>elems := take (min (length candidates) (length (elems msk))) (elems msk)\<rparr>) s"
proof -
  let ?n = "min (length candidates) (length (elems msk))"
  have noerr: "\<exists>out s1. select_with_mask T map_fn candidates msk s = (Inr out, s1)
            \<and> length out \<le> ?n"
  proof (cases "py_in ''BoolTensor'' (mtype msk)")
    case True
    obtain out s1 where r: "select_bool map_fn (zip candidates (elems msk)) s = (out, s1)"
      by (cases "select_bool map_fn (zip candidates (elems msk)) s")
    from select_bool_length [OF r] have "length out \<le> ?n"
      by simp
    with True r show ?thesis by (simp add: select_with_mask_def)
  next
    case False
    with assms have fl: "py_in ''FloatTensor'' (mtype msk)" by simp
    obtain out s1 where r: "select_float T map_fn (zip candidates (elems msk)) s = (out, s1)"
      by (cases "select_float T map_fn (zip candidates (elems msk)) s")
    from select_float_length [OF r] have "length out \<le> ?n"
      by simp
    with False fl r show ?thesis by (simp add: select_with_mask_def)
  qed
  have bool: "select_with_mask T map_fn candidates msk s =
              (case call_each map_fn (map ((!) candidates) (true_positions (elems msk) ?n)) s of
                 (out, s1) \<Rightarrow> (Inr out, s1))"
    if "py_in ''BoolTensor'' (mtype msk)"
    using that by (rule select_with_mask_bool_call_each)
  have float: "select_with_mask T map_fn candidates msk s =
              (case call_each map_fn (map ((!) candidates) (true_positions (elems msk) ?n)) s of
                 (ys, s1) \<Rightarrow>
                   (Inr (map2 (tensor_mul T) ys (map ((!) (elems msk)) (true_positions (elems msk) ?n))),
                    s1))"
    if nb: "\<not> py_in ''BoolTensor'' (mtype msk)"
  proof -
    from nb assms have fl: "py_in ''FloatTensor'' (mtype msk)" by simp
    from nb fl show ?thesis by (rule select_with_mask_float_call_each)
  qed
  have trunc: "select_with_mask T map_fn candidates msk s =
           select_with_mask T map_fn (take ?n candidates) (msk\<lparr>elems := take ?n (elems msk)\<rparr>) s"
  proof -
    have e: "elems (msk\<lparr>elems := take ?n (elems msk)\<rparr>) = take ?n (elems msk)" by simp
    have t: "mtype (msk\<lparr>elems := take ?n (elems msk)\<rparr>) = mtype msk" by simp
    show ?thesis
      unfolding select_with_mask_def e t zip_take_min ..
  qed
  from noerr bool float trunc show ?thesis by blast
qed

theorem select_with_mask_no_length_check_witness:
  "(py_in ''BoolTensor'' ''torch.BoolTensor'' \<or> py_in ''FloatTensor'' ''torch.BoolTensor'')
   \<and> (py_in ''BoolTensor'' ''torch.FloatTensor'' \<or> py_in ''FloatTensor'' ''torch.FloatTensor'')
   \<and> (select_with_mask tv_torch (logged Num) [10, 20 :: real]
        \<lparr>mtype = ''torch.BoolTensor'', elems = [BoolS True, BoolS True, BoolS True]\<rparr> []
         :: ((string, real) error + tval list) \<times> real list)
      = (Inr [Num 10, Num 20], [10, 20])
   \<and> (select_with_mask tv_torch (logged Num) [10, 20, 30, 40 :: real]
        \<lparr>mtype = ''torch.BoolTensor'', elems = [BoolS False, BoolS True]\<rparr> []
         :: ((string, real) error + tval list) \<times> real list)
      = (Inr [Num 20], [20])
   \<and> (select_with_mask tv_torch (logged Num) [10, 20, 30, 40 :: real]
        \<lparr>mtype = ''torch.FloatTensor'', elems = [FloatS 3, FloatS 0, FloatS (1 / 2)]\<rparr> []
         :: ((string, real) error + tval list) \<times> real list)
      = (Inr [Num 30, Num 15], [10, 30])
   \<and> (select_with_mask tv_torch (logged Num) [10 :: real]
        \<lparr>mtype = ''torch.FloatTensor'', elems = [FloatS 3, FloatS 0, FloatS (1 / 2)]\<rparr> []
         :: ((string, real) error + tval list) \<times> real list)
      = (Inr [Num 30], [10])"
proof -
  let ?b3 = "\<lparr>mtype = ''torch.BoolTensor'', elems = [BoolS True, BoolS True, BoolS True :: real scalar]\<rparr>"
  let ?b2 = "\<lparr>mtype = ''torch.BoolTensor'', elems = [BoolS False, BoolS True :: real scalar]\<rparr>"
  let ?f3 = "\<lparr>mtype = ''torch.FloatTensor'', elems = [FloatS 3, FloatS 0, FloatS (1 / 2) :: real scalar]\<rparr>"
  have hb3: "py_in ''BoolTensor'' (mtype ?b3) \<or> py_in ''FloatTensor'' (mtype ?b3)"
    and hb2: "py_in ''BoolTensor'' (mtype ?b2) \<or> py_in ''FloatTensor'' (mtype ?b2)"
    and hf3: "py_in ''BoolTensor'' (mtype ?f3) \<or> py_in ''FloatTensor'' (mtype ?f3)"
    by simp_all
  have b3: "py_in ''BoolTensor'' (mtype ?b3)" and b2: "py_in ''BoolTensor'' (mtype ?b2)"
    and f3: "\<not> py_in ''BoolTensor'' (mtype ?f3)"
    by simp_all
  note long_mask = select_with_mask_no_length_check [OF hb3, where T = tv_torch
      and map_fn = "logged Num" and candidates = "[10, 20 :: real]" and s = "[]",
      THEN conjunct2, THEN conjunct1, rule_format, OF b3]
  note short_mask = select_with_mask_no_length_check [OF hb2, where T = tv_torch
      and map_fn = "logged Num" and candidates = "[10, 20, 30, 40 :: real]" and s = "[]",
      THEN conjunct2, THEN conjunct1, rule_format, OF b2]
  note short_weights = select_with_mask_no_length_check [OF hf3, where T = tv_torch
      and map_fn = "logged Num" and candidates = "[10, 20, 30, 40 :: real]" and s = "[]",
      THEN conjunct2, THEN conjunct2, THEN conjunct1, rule_format, OF f3]
  note long_weights = select_with_mask_no_length_check [OF hf3, where T = tv_torch
      and map_fn = "logged Num" and candidates = "[10 :: real]" and s = "[]",
      THEN conjunct2, THEN conjunct2, THEN conjunct1, rule_format, OF f3]
  have 1: "(select_with_mask tv_torch (logged Num) [10, 20 :: real] ?b3 []
         :: ((string, real) error + tval list) \<times> real list) = (Inr [Num 10, Num 20], [10, 20])"
    by (subst long_mask) (simp add: true_positions_def truth_simps logged_def)
  have 2: "(select_with_mask tv_torch (logged Num) [10, 20, 30, 40 :: real] ?b2 []
         :: ((string, real) error + tval list) \<times> real list) = (Inr [Num 20], [20])"
    by (subst short_mask) (simp add: true_positions_def truth_simps logged_def)
  have 3: "(select_with_mask tv_torch (logged Num) [10, 20, 30, 40 :: real] ?f3 []
         :: ((string, real) error + tval list) \<times> real list) = (Inr [Num 30, Num 15], [10, 30])"
    by (subst short_weights) (simp add: true_positions_def truth_simps logged_def tv_torch_def weight_def)
  have 4: "(select_with_mask tv_torch (logged Num) [10 :: real] ?f3 []
         :: ((string, real) error + tval list) \<times> real list) = (Inr [Num 30], [10])"
    by (subst long_weights) (simp add: true_positions_def truth_simps logged_def tv_torch_def weight_def)
  from 1 2 3 4 show ?thesis by simp
qed

section \<open>Properties of the reduction\<close>

text \<open>
  The loop of \<^verbatim>\<open>sum\<close> is a left fold from the integer \<open>0\<close>; in the instance above, on
  numbers, it is their sum.
\<close>

lemma py_sum_from_foldl: "py_sum_from T acc xs = foldl (tensor_add T) acc xs"
  by (induction xs arbitrary: acc) simp_all

lemma py_sum_foldl: "py_sum T xs = foldl (tensor_add T) (py_int T 0) xs"
  by (simp add: py_sum_def py_sum_from_foldl)

lemma foldl_tv_numbers: "foldl (tv_map2 (+)) (Num a) (map Num xs) = Num (a + sum_list xs)"
  by (induction xs arbitrary: a) (simp_all add: add.assoc)

lemma py_sum_tv_numbers: "py_sum tv_torch (map Num xs) = Num (sum_list xs)"
  by (simp add: py_sum_foldl tv_torch_def foldl_tv_numbers)

text \<open>
  C4. For a list of two or more surviving outputs, \<^verbatim>\<open>_tensor_reduction\<close> returns, for the
  policy \<^verbatim>\<open>sum\<close>, the sum of the outputs (the framework's \<^verbatim>\<open>+\<close> folded over the list from
  the left, starting from \<open>0\<close>, as \<^verbatim>\<open>sum\<close> does); for \<^verbatim>\<open>mean\<close>, that sum divided by the
  number of outputs; for \<^verbatim>\<open>concat\<close>, \<^verbatim>\<open>torch.cat\<close> of the list along dimension 1; and for
  \<^verbatim>\<open>none\<close>, the list itself.
\<close>

theorem tensor_reduction_two_or_more:
  assumes "2 \<le> length tensor_list"
  shows "tensor_reduction T ''sum'' tensor_list =
           Inr (Tensor (foldl (tensor_add T) (py_int T 0) tensor_list))
       \<and> tensor_reduction T ''mean'' tensor_list =
           Inr (Tensor (tensor_div T (foldl (tensor_add T) (py_int T 0) tensor_list)
                          (py_int T (int (length tensor_list)))))
       \<and> tensor_reduction T ''concat'' tensor_list = Inr (Tensor (cat T tensor_list 1))
       \<and> tensor_reduction T ''none'' tensor_list = Inr (TensorList tensor_list)"
proof -
  from assms have ne: "tensor_list \<noteq> []" and n1: "length tensor_list \<noteq> Suc 0"
    by auto
  show ?thesis
    by (simp add: tensor_reduction_def ne n1 py_sum_foldl)
qed

theorem tensor_reduction_two_or_more_witness:
  "(2::nat) \<le> length [Mat [[1, 2]], Mat [[3, 4]]]
   \<and> (tensor_reduction tv_torch ''sum'' [Mat [[1, 2]], Mat [[3, 4]]] :: (string, real) error + tval reduced)
       = Inr (Tensor (Mat [[4, 6]]))
   \<and> (tensor_reduction tv_torch ''mean'' [Mat [[1, 2]], Mat [[3, 4]]] :: (string, real) error + tval reduced)
       = Inr (Tensor (Mat [[2, 3]]))
   \<and> (tensor_reduction tv_torch ''concat'' [Mat [[1, 2]], Mat [[3, 4]]] :: (string, real) error + tval reduced)
       = Inr (Tensor (Mat [[1, 2, 3, 4]]))
   \<and> (tensor_reduction tv_torch ''none'' [Mat [[1, 2]], Mat [[3, 4]]] :: (string, real) error + tval reduced)
       = Inr (TensorList [Mat [[1, 2]], Mat [[3, 4]]])"
proof -
  have l: "2 \<le> length [Mat [[1, 2]], Mat [[3, 4]]]" by simp
  show ?thesis
    by (simp add: tensor_reduction_two_or_more [OF l] tv_torch_def tv_cat_def)
qed

text \<open>
  C3, as stated for every policy name, fails for the policy \<^verbatim>\<open>none\<close>, which the source
  tests first: the empty list and a one-element list are returned as lists.
\<close>

theorem tensor_reduction_none_counterexample:
  "(tensor_reduction tv_torch ''none'' [] :: (string, real) error + tval reduced) \<noteq> Inr NoneValue
   \<and> (tensor_reduction tv_torch ''none'' [Num 1] :: (string, real) error + tval reduced)
       \<noteq> Inr (Tensor (Num 1))"
  by (simp add: tensor_reduction_def)

text \<open>
  C3, amended. For every policy name other than \<^verbatim>\<open>none\<close>, recognized or not,
  \<^verbatim>\<open>_tensor_reduction\<close> returns \<^verbatim>\<open>None\<close> for the empty list and the single element itself
  for a one-element list; for the policy \<^verbatim>\<open>none\<close> it returns the list unchanged, whatever
  its length.
\<close>

theorem tensor_reduction_short:
  assumes "reduction_type \<noteq> ''none''"
  shows "tensor_reduction T reduction_type [] = Inr NoneValue
       \<and> tensor_reduction T reduction_type [x] = Inr (Tensor x)
       \<and> tensor_reduction T ''none'' tensor_list = Inr (TensorList tensor_list)"
  using assms by (simp add: tensor_reduction_def)

theorem tensor_reduction_short_witness:
  "''mean'' \<noteq> ''none''
   \<and> (tensor_reduction tv_torch ''mean'' [] :: (string, real) error + tval reduced) = Inr NoneValue
   \<and> (tensor_reduction tv_torch ''mean'' [Mat [[1, 2]]] :: (string, real) error + tval reduced)
       = Inr (Tensor (Mat [[1, 2]]))
   \<and> (tensor_reduction tv_torch ''none'' [Mat [[1, 2]]] :: (string, real) error + tval reduced)
       = Inr (TensorList [Mat [[1, 2]]])"
proof -
  have h: "''mean'' \<noteq> ''none''" by simp
  show ?thesis
    by (simp add: tensor_reduction_short [OF h])
qed

text \<open>
  C5, as stated for every surviving output list, fails for the empty list and for a
  one-element list: the source returns for them before it looks at the policy name, so an
  unrecognized name raises nothing there.
\<close>

theorem tensor_reduction_unrecognized_counterexample:
  "(tensor_reduction tv_torch ''max'' [] :: (string, real) error + tval reduced) = Inr NoneValue
   \<and> (tensor_reduction tv_torch ''max'' [] :: (string, real) error + tval reduced)
       \<noteq> Inl (UnrecognizedReduction ''max'')
   \<and> (tensor_reduction tv_torch ''max'' [Num 1] :: (string, real) error + tval reduced)
       = Inr (Tensor (Num 1))"
  by (simp add: tensor_reduction_def)

text \<open>
  C5, amended. For a policy name that is none of \<^verbatim>\<open>none\<close>, \<^verbatim>\<open>sum\<close>, \<^verbatim>\<open>mean\<close> and
  \<^verbatim>\<open>concat\<close>, \<^verbatim>\<open>_tensor_reduction\<close> raises the unrecognized-reduction-policy error exactly
  when the list of surviving outputs has two or more elements; for the empty list it
  returns \<^verbatim>\<open>None\<close> and for a one-element list the single element, and raises nothing.
\<close>

theorem tensor_reduction_unrecognized:
  assumes "reduction_type \<noteq> ''none''" and "reduction_type \<noteq> ''sum''"
    and "reduction_type \<noteq> ''mean''" and "reduction_type \<noteq> ''concat''"
  shows "((tensor_reduction T reduction_type tensor_list = Inl (UnrecognizedReduction reduction_type))
           = (2 \<le> length tensor_list))
       \<and> tensor_reduction T reduction_type tensor_list =
           (case tensor_list of
              [] \<Rightarrow> Inr NoneValue
            | [x] \<Rightarrow> Inr (Tensor x)
            | x # y # rest \<Rightarrow> Inl (UnrecognizedReduction reduction_type))
       \<and> tensor_reduction T reduction_type [] = Inr NoneValue
       \<and> tensor_reduction T reduction_type [x] = Inr (Tensor x)"
proof -
  have full: "tensor_reduction T reduction_type ts =
           (case ts of
              [] \<Rightarrow> Inr NoneValue
            | [x] \<Rightarrow> Inr (Tensor x)
            | x # y # rest \<Rightarrow> Inl (UnrecognizedReduction reduction_type))" for ts
    using assms by (simp add: tensor_reduction_def split: list.splits)
  have iff: "(tensor_reduction T reduction_type tensor_list = Inl (UnrecognizedReduction reduction_type))
           = (2 \<le> length tensor_list)"
    by (simp add: full split: list.splits)
  have e: "tensor_reduction T reduction_type [] = Inr NoneValue"
    and o: "tensor_reduction T reduction_type [x] = Inr (Tensor x)"
    by (simp_all add: full)
  from iff full [of tensor_list] e o show ?thesis by simp
qed

theorem tensor_reduction_unrecognized_witness:
  "''max'' \<noteq> ''none'' \<and> ''max'' \<noteq> ''sum'' \<and> ''max'' \<noteq> ''mean'' \<and> ''max'' \<noteq> ''concat''
   \<and> (2::nat) \<le> length [Num 1, Num 2]
   \<and> (tensor_reduction tv_torch ''max'' [Num 1, Num 2] :: (string, real) error + tval reduced)
       = Inl (UnrecognizedReduction ''max'')
   \<and> (tensor_reduction tv_torch ''max'' [] :: (string, real) error + tval reduced) = Inr NoneValue
   \<and> (tensor_reduction tv_torch ''max'' [Num 1] :: (string, real) error + tval reduced)
       = Inr (Tensor (Num 1))"
proof -
  have a: "''max'' \<noteq> ''none''" and b: "''max'' \<noteq> ''sum''"
    and c: "''max'' \<noteq> ''mean''" and d: "''max'' \<noteq> ''concat''" by simp_all
  note t = tensor_reduction_unrecognized [OF a b c d, THEN conjunct2, THEN conjunct1]
  show ?thesis
    by (simp add: t)
qed

section \<open>Properties of the mutator\<close>

text \<open>
  The only errors of the selection and of the reduction are their own, and a callback is:
  the cache miss, then the length check, then the selection followed by the reduction.
\<close>

lemma select_with_mask_error:
  "select_with_mask T f cs msk s = (Inl e, s1) \<Longrightarrow> e = UnrecognizedMask"
  by (auto simp: select_with_mask_def split: if_splits prod.splits)

lemma tensor_reduction_error:
  "tensor_reduction T p out = Inl e \<Longrightarrow> e = UnrecognizedReduction p"
  by (auto simp: tensor_reduction_def split: if_splits)

lemma select_then_reduce_error:
  "fst (select_then_reduce T f cs msk p M) = Inl e \<Longrightarrow> e = UnrecognizedMask \<or> e = UnrecognizedReduction p"
  by (auto simp: select_then_reduce_def split: prod.splits sum.splits
      dest: select_with_mask_error tensor_reduction_error)

lemma select_then_reduce_mask:
  "fst (select_then_reduce T f cs msk p M) = Inr (r, m) \<Longrightarrow> m = msk"
  by (auto simp: select_then_reduce_def split: prod.splits sum.splits)

lemma on_forward_layer_choice_cases:
  "on_forward_layer_choice T M lc inputs =
     (case cache M (key lc) of
        None \<Rightarrow> (Inl (NotInCache (key lc)), M)
      | Some msk \<Rightarrow>
          if length (elems msk) \<noteq> length (choices lc)
          then (Inl (InvalidMask msk (int (length (choices lc)))), M)
          else select_then_reduce T (\<lambda>(op, args). op args)
                 (map (\<lambda>choice. (choice, inputs)) (choices lc)) msk (reduction lc) M)"
  by (simp add: on_forward_layer_choice_def get_decision_def select_then_reduce_def
      split: option.splits prod.splits sum.splits)

lemma on_forward_input_choice_cases:
  "on_forward_input_choice T M ic tensor_list =
     (case cache M (key ic) of
        None \<Rightarrow> (Inl (NotInCache (key ic)), M)
      | Some msk \<Rightarrow>
          if int (length (elems msk)) \<noteq> n_candidates ic
          then (Inl (InvalidMask msk (n_candidates ic)), M)
          else select_then_reduce T (\<lambda>x s. (x, s)) tensor_list msk (reduction ic) M)"
  by (simp add: on_forward_input_choice_def get_decision_def select_then_reduce_def
      split: option.splits prod.splits sum.splits)

lemma select_then_reduce_cache:
  "cache (snd (select_then_reduce T f cs msk p M)) = cache M"
  by (simp add: select_then_reduce_def split: prod.splits)


text \<open>
  C6. When \<^verbatim>\<open>sample_search\<close> returns a mapping, \<^verbatim>\<open>reset()\<close> stores it as the cache. After
  that, for a choice site whose key is in the mapping, \<^verbatim>\<open>_get_decision\<close> returns the
  decision stored under the key, so that a forward callback never raises the cache-miss
  error and, when it returns, returns that decision as its mask; for a site whose key is
  not in the mapping, both forward callbacks raise the cache-miss error for that key and
  change nothing. On a mutator as constructed, before any \<^verbatim>\<open>reset()\<close>, both callbacks
  raise the cache-miss error for every site.
\<close>

theorem forward_after_reset:
  assumes "sample_search S (world M) = (Inr decisions, w)"
  shows "reset S M = (Inr (), M\<lparr>cache := decisions, world := w\<rparr>)
    \<and> (\<forall>msk. decisions (key lc) = Some msk \<longrightarrow>
          get_decision (M\<lparr>cache := decisions, world := w\<rparr>) lc = Inr msk
        \<and> (\<forall>k. fst (on_forward_layer_choice T (M\<lparr>cache := decisions, world := w\<rparr>) lc inputs)
               \<noteq> Inl (NotInCache k))
        \<and> (\<forall>r m. fst (on_forward_layer_choice T (M\<lparr>cache := decisions, world := w\<rparr>) lc inputs)
                 = Inr (r, m) \<longrightarrow> m = msk))
    \<and> (\<forall>msk. decisions (key ic) = Some msk \<longrightarrow>
          get_decision (M\<lparr>cache := decisions, world := w\<rparr>) ic = Inr msk
        \<and> (\<forall>k. fst (on_forward_input_choice T (M\<lparr>cache := decisions, world := w\<rparr>) ic tensor_list)
               \<noteq> Inl (NotInCache k))
        \<and> (\<forall>r m. fst (on_forward_input_choice T (M\<lparr>cache := decisions, world := w\<rparr>) ic tensor_list)
                 = Inr (r, m) \<longrightarrow> m = msk))
    \<and> (decisions (key lc) = None \<longrightarrow>
          on_forward_layer_choice T (M\<lparr>cache := decisions, world := w\<rparr>) lc inputs
            = (Inl (NotInCache (key lc)), M\<lparr>cache := decisions, world := w\<rparr>))
    \<and> (decisions (key ic) = None \<longrightarrow>
          on_forward_input_choice T (M\<lparr>cache := decisions, world := w\<rparr>) ic tensor_list
            = (Inl (NotInCache (key ic)), M\<lparr>cache := decisions, world := w\<rparr>))
    \<and> on_forward_layer_choice T (init model) lc inputs = (Inl (NotInCache (key lc)), init model)
    \<and> on_forward_input_choice T (init model) ic tensor_list = (Inl (NotInCache (key ic)), init model)"
proof -
  let ?M = "M\<lparr>cache := decisions, world := w\<rparr>"
  have c: "cache ?M = decisions" by simp
  have 1: "reset S M = (Inr (), ?M)"
    using assms by (simp add: reset_def)
  have 2: "get_decision ?M lc = Inr msk
        \<and> (\<forall>k. fst (on_forward_layer_choice T ?M lc inputs) \<noteq> Inl (NotInCache k))
        \<and> (\<forall>r m. fst (on_forward_layer_choice T ?M lc inputs) = Inr (r, m) \<longrightarrow> m = msk)"
    if "decisions (key lc) = Some msk" for msk
    using that
    by (auto simp: get_decision_def on_forward_layer_choice_cases
        dest: select_then_reduce_error select_then_reduce_mask split: if_splits)
  have 3: "get_decision ?M ic = Inr msk
        \<and> (\<forall>k. fst (on_forward_input_choice T ?M ic tensor_list) \<noteq> Inl (NotInCache k))
        \<and> (\<forall>r m. fst (on_forward_input_choice T ?M ic tensor_list) = Inr (r, m) \<longrightarrow> m = msk)"
    if "decisions (key ic) = Some msk" for msk
    using that
    by (auto simp: get_decision_def on_forward_input_choice_cases
        dest: select_then_reduce_error select_then_reduce_mask split: if_splits)
  have 4: "on_forward_layer_choice T ?M lc inputs = (Inl (NotInCache (key lc)), ?M)"
    if "decisions (key lc) = None"
    using that by (simp add: on_forward_layer_choice_cases)
  have 5: "on_forward_input_choice T ?M ic tensor_list = (Inl (NotInCache (key ic)), ?M)"
    if "decisions (key ic) = None"
    using that by (simp add: on_forward_input_choice_cases)
  have 6: "on_forward_layer_choice T (init model) lc inputs = (Inl (NotInCache (key lc)), init model)"
    by (simp add: on_forward_layer_choice_cases init_def)
  have 7: "on_forward_input_choice T (init model) ic tensor_list = (Inl (NotInCache (key ic)), init model)"
    by (simp add: on_forward_input_choice_cases init_def)
  from 1 2 3 4 5 6 7 show ?thesis by blast
qed


theorem forward_after_reset_witness:
  "sample_search demo_sampler (world (init 0 :: (string, real, nat) mutator))
      = (Inr [''conv'' \<mapsto> demo_mask], 0)
   \<and> reset demo_sampler (init 0) = (Inr (), \<lparr>cache = [''conv'' \<mapsto> demo_mask], world = 0\<rparr>)
   \<and> get_decision \<lparr>cache = [''conv'' \<mapsto> demo_mask], world = 0 :: nat\<rparr> (demo_layer ''conv'' 3)
      = Inr demo_mask
   \<and> get_decision \<lparr>cache = [''conv'' \<mapsto> demo_mask], world = 0 :: nat\<rparr> (demo_input ''conv'' 3)
      = Inr demo_mask
   \<and> on_forward_layer_choice tv_torch \<lparr>cache = [''conv'' \<mapsto> demo_mask], world = 0\<rparr>
        (demo_layer ''skip'' 3) 5
      = (Inl (NotInCache ''skip''), \<lparr>cache = [''conv'' \<mapsto> demo_mask], world = 0\<rparr>)
   \<and> on_forward_input_choice tv_torch \<lparr>cache = [''conv'' \<mapsto> demo_mask], world = 0 :: nat\<rparr>
        (demo_input ''skip'' 3) [Num 1, Num 2, Num 3]
      = (Inl (NotInCache ''skip''), \<lparr>cache = [''conv'' \<mapsto> demo_mask], world = 0\<rparr>)
   \<and> on_forward_layer_choice tv_torch (init 0) (demo_layer ''conv'' 3) 5
      = (Inl (NotInCache ''conv''), init 0 :: (string, real, nat) mutator)
   \<and> on_forward_input_choice tv_torch (init 0) (demo_input ''conv'' 3) [Num 1, Num 2, Num 3]
      = (Inl (NotInCache ''conv''), init 0 :: (string, real, nat) mutator)"
proof -
  let ?M0 = "init 0 :: (string, real, nat) mutator"
  have h: "sample_search demo_sampler (world ?M0) = (Inr [''conv'' \<mapsto> demo_mask], 0)"
    by (simp add: demo_sampler_def init_def)
  have u: "?M0\<lparr>cache := [''conv'' \<mapsto> demo_mask], world := 0\<rparr>
         = \<lparr>cache = [''conv'' \<mapsto> demo_mask], world = 0\<rparr>"
    by (simp add: init_def)
  note present = forward_after_reset [OF h, where lc = "demo_layer ''conv'' 3"
      and ic = "demo_input ''conv'' 3" and T = tv_torch and inputs = 5
      and tensor_list = "[Num 1, Num 2, Num 3]" and model = 0, unfolded u]
  note absent = forward_after_reset [OF h, where lc = "demo_layer ''skip'' 3"
      and ic = "demo_input ''skip'' 3" and T = tv_torch and inputs = 5
      and tensor_list = "[Num 1, Num 2, Num 3]" and model = 0, unfolded u]
  have kc: "key (demo_layer ''conv'' 3) = ''conv''" "key (demo_input ''conv'' 3) = ''conv''"
    and ks: "key (demo_layer ''skip'' 3) = ''skip''" "key (demo_input ''skip'' 3) = ''skip''"
    by (simp_all add: demo_layer_def demo_input_def)
  from present have p1: "reset demo_sampler ?M0 = (Inr (), \<lparr>cache = [''conv'' \<mapsto> demo_mask], world = 0\<rparr>)"
    by simp
  from present have p2: "get_decision \<lparr>cache = [''conv'' \<mapsto> demo_mask], world = 0 :: nat\<rparr>
      (demo_layer ''conv'' 3) = Inr demo_mask"
    by (simp add: kc)
  from present have p3: "get_decision \<lparr>cache = [''conv'' \<mapsto> demo_mask], world = 0 :: nat\<rparr>
      (demo_input ''conv'' 3) = Inr demo_mask"
    by (simp add: kc)
  from absent have a1: "on_forward_layer_choice tv_torch \<lparr>cache = [''conv'' \<mapsto> demo_mask], world = 0\<rparr>
        (demo_layer ''skip'' 3) 5
      = (Inl (NotInCache ''skip''), \<lparr>cache = [''conv'' \<mapsto> demo_mask], world = 0\<rparr>)"
    by (simp add: ks)
  from absent have a2: "on_forward_input_choice tv_torch \<lparr>cache = [''conv'' \<mapsto> demo_mask], world = 0 :: nat\<rparr>
        (demo_input ''skip'' 3) [Num 1, Num 2, Num 3]
      = (Inl (NotInCache ''skip''), \<lparr>cache = [''conv'' \<mapsto> demo_mask], world = 0\<rparr>)"
    by (simp add: ks)
  from present have b1: "on_forward_layer_choice tv_torch ?M0 (demo_layer ''conv'' 3) 5
      = (Inl (NotInCache ''conv''), ?M0)"
    by (simp add: kc)
  from present have b2: "on_forward_input_choice tv_torch ?M0 (demo_input ''conv'' 3) [Num 1, Num 2, Num 3]
      = (Inl (NotInCache ''conv''), ?M0)"
    by (simp add: kc)
  from h p1 p2 p3 a1 a2 b1 b2 show ?thesis by blast
qed

text \<open>
  C7. Let the cache hold a mask for the site. If the length of the mask differs from the
  number of candidate operations \<^verbatim>\<open>len(mutable.choices)\<close> (for an input choice: from the
  declared \<^verbatim>\<open>mutable.n_candidates\<close>), the callback fails with the mask-length error, which
  carries the mask and the expected length, and nothing has been called or changed. If the
  lengths are equal, the assertion holds: the callback is the selection with that mask
  followed by the reduction, and its result is never the mask-length error.
\<close>

theorem mask_length_assertion:
  assumes "cache M (key lc) = Some msk" and "cache M (key ic) = Some imsk"
  shows "(length (elems msk) \<noteq> length (choices lc) \<longrightarrow>
            on_forward_layer_choice T M lc inputs
              = (Inl (InvalidMask msk (int (length (choices lc)))), M))
       \<and> (length (elems msk) = length (choices lc) \<longrightarrow>
            on_forward_layer_choice T M lc inputs
              = select_then_reduce T (\<lambda>(op, args). op args)
                  (map (\<lambda>choice. (choice, inputs)) (choices lc)) msk (reduction lc) M
          \<and> (\<forall>m n. fst (on_forward_layer_choice T M lc inputs) \<noteq> Inl (InvalidMask m n)))
       \<and> (int (length (elems imsk)) \<noteq> n_candidates ic \<longrightarrow>
            on_forward_input_choice T M ic tensor_list
              = (Inl (InvalidMask imsk (n_candidates ic)), M))
       \<and> (int (length (elems imsk)) = n_candidates ic \<longrightarrow>
            on_forward_input_choice T M ic tensor_list
              = select_then_reduce T (\<lambda>x s. (x, s)) tensor_list imsk (reduction ic) M
          \<and> (\<forall>m n. fst (on_forward_input_choice T M ic tensor_list) \<noteq> Inl (InvalidMask m n)))"
  using assms
  by (auto simp: on_forward_layer_choice_cases on_forward_input_choice_cases
      dest: select_then_reduce_error)

theorem mask_length_assertion_witness:
  "cache \<lparr>cache = [''conv'' \<mapsto> demo_mask], world = 0 :: nat\<rparr> ''conv'' = Some demo_mask
   \<and> on_forward_layer_choice tv_torch \<lparr>cache = [''conv'' \<mapsto> demo_mask], world = 0\<rparr>
        (demo_layer ''conv'' 2) 5
      = (Inl (InvalidMask demo_mask 2), \<lparr>cache = [''conv'' \<mapsto> demo_mask], world = 0\<rparr>)
   \<and> on_forward_input_choice tv_torch \<lparr>cache = [''conv'' \<mapsto> demo_mask], world = 0 :: nat\<rparr>
        (demo_input ''conv'' 2) [Mat [[1]], Mat [[2]], Mat [[3]]]
      = (Inl (InvalidMask demo_mask 2), \<lparr>cache = [''conv'' \<mapsto> demo_mask], world = 0\<rparr>)
   \<and> on_forward_layer_choice tv_torch \<lparr>cache = [''conv'' \<mapsto> demo_mask], world = 0\<rparr>
        (demo_layer ''conv'' 3) 5
      = (Inr (Tensor (Num 21), demo_mask), \<lparr>cache = [''conv'' \<mapsto> demo_mask], world = 2\<rparr>)
   \<and> on_forward_input_choice tv_torch \<lparr>cache = [''conv'' \<mapsto> demo_mask], world = 0 :: nat\<rparr>
        (demo_input ''conv'' 3) [Mat [[1]], Mat [[2]], Mat [[3]]]
      = (Inr (Tensor (Mat [[1, 3]]), demo_mask), \<lparr>cache = [''conv'' \<mapsto> demo_mask], world = 0\<rparr>)"
proof -
  let ?M = "\<lparr>cache = [''conv'' \<mapsto> demo_mask], world = 0 :: nat\<rparr>"
  have c: "cache ?M ''conv'' = Some demo_mask" by simp
  have l2: "cache ?M (key (demo_layer ''conv'' 2)) = Some demo_mask"
    and i2: "cache ?M (key (demo_input ''conv'' 2)) = Some demo_mask"
    and l3: "cache ?M (key (demo_layer ''conv'' 3)) = Some demo_mask"
    and i3: "cache ?M (key (demo_input ''conv'' 3)) = Some demo_mask"
    by (simp_all add: demo_layer_def demo_input_def)
  note short = mask_length_assertion [OF l2 i2, where T = tv_torch and inputs = 5
      and tensor_list = "[Mat [[1]], Mat [[2]], Mat [[3]]]"]
  note exact = mask_length_assertion [OF l3 i3, where T = tv_torch and inputs = 5
      and tensor_list = "[Mat [[1]], Mat [[2]], Mat [[3]]]"]
  have n2: "length (elems demo_mask) \<noteq> length (choices (demo_layer ''conv'' 2))"
    "int (length (elems demo_mask)) \<noteq> n_candidates (demo_input ''conv'' 2)"
    and len2: "int (length (choices (demo_layer ''conv'' 2))) = 2"
    "n_candidates (demo_input ''conv'' 2) = 2"
    and n3: "length (elems demo_mask) = length (choices (demo_layer ''conv'' 3))"
    "int (length (elems demo_mask)) = n_candidates (demo_input ''conv'' 3)"
    by (simp_all add: demo_mask_def demo_layer_def demo_input_def)
  from short n2 have s1: "on_forward_layer_choice tv_torch ?M (demo_layer ''conv'' 2) 5
      = (Inl (InvalidMask demo_mask 2), ?M)"
    by (simp add: len2)
  from short n2 have s2: "on_forward_input_choice tv_torch ?M (demo_input ''conv'' 2)
        [Mat [[1]], Mat [[2]], Mat [[3]]]
      = (Inl (InvalidMask demo_mask 2), ?M)"
    by (simp add: len2)
  from exact n3 have "on_forward_layer_choice tv_torch ?M (demo_layer ''conv'' 3) 5
      = select_then_reduce tv_torch (\<lambda>(op, args). op args)
          (map (\<lambda>choice. (choice, 5)) (choices (demo_layer ''conv'' 3))) demo_mask
          (reduction (demo_layer ''conv'' 3)) ?M"
    by blast
  also have "\<dots> = (Inr (Tensor (Num 21), demo_mask), \<lparr>cache = [''conv'' \<mapsto> demo_mask], world = 2\<rparr>)"
    by (simp add: select_then_reduce_def select_with_mask_def tensor_reduction_def py_sum_def
        tv_torch_def demo_mask_def demo_layer_def truth_simps)
  finally have e1: "on_forward_layer_choice tv_torch ?M (demo_layer ''conv'' 3) 5
      = (Inr (Tensor (Num 21), demo_mask), \<lparr>cache = [''conv'' \<mapsto> demo_mask], world = 2\<rparr>)" .
  from exact n3 have "on_forward_input_choice tv_torch ?M (demo_input ''conv'' 3)
        [Mat [[1]], Mat [[2]], Mat [[3]]]
      = select_then_reduce tv_torch (\<lambda>x s. (x, s)) [Mat [[1]], Mat [[2]], Mat [[3]]] demo_mask
          (reduction (demo_input ''conv'' 3)) ?M"
    by blast
  also have "\<dots> = (Inr (Tensor (Mat [[1, 3]]), demo_mask), ?M)"
    by (simp add: select_then_reduce_def select_with_mask_def tensor_reduction_def
        tv_torch_def tv_cat_def demo_mask_def demo_input_def truth_simps)
  finally have e2: "on_forward_input_choice tv_torch ?M (demo_input ''conv'' 3)
        [Mat [[1]], Mat [[2]], Mat [[3]]]
      = (Inr (Tensor (Mat [[1, 3]]), demo_mask), ?M)" .
  from c s1 s2 e1 e2 show ?thesis by blast
qed

text \<open>
  C9. The cache is written by \<^verbatim>\<open>reset()\<close> alone. \<^verbatim>\<open>export()\<close> returns what
  \<^verbatim>\<open>sample_final\<close> returns, leaves the cache as it was and returns the same whatever the
  cache holds; both forward callbacks leave the cache as it was, whether they succeed or
  fail; and after \<^verbatim>\<open>reset()\<close> the cache is the whole mapping that \<^verbatim>\<open>sample_search\<close>
  returned (the old cache when \<^verbatim>\<open>sample_search\<close> raised).
\<close>

theorem cache_written_by_reset_only:
  "cache (snd (export S M)) = cache M
   \<and> export S M = (fst (sample_final S (world M)), M\<lparr>world := snd (sample_final S (world M))\<rparr>)
   \<and> fst (export S (M\<lparr>cache := c\<rparr>)) = fst (export S M)
   \<and> cache (snd (on_forward_layer_choice T M lc inputs)) = cache M
   \<and> cache (snd (on_forward_input_choice T M ic tensor_list)) = cache M
   \<and> cache (snd (reset S M))
       = (case fst (sample_search S (world M)) of Inl e \<Rightarrow> cache M | Inr decisions \<Rightarrow> decisions)"
proof -
  have 1: "export S M = (fst (sample_final S (world M)), M\<lparr>world := snd (sample_final S (world M))\<rparr>)"
    by (simp add: export_def split: prod.splits)
  have 2: "fst (export S (M\<lparr>cache := c\<rparr>)) = fst (export S M)"
    by (simp add: export_def split: prod.splits)
  have 3: "cache (snd (on_forward_layer_choice T M lc inputs)) = cache M"
    by (simp add: on_forward_layer_choice_cases select_then_reduce_cache split: option.splits)
  have 4: "cache (snd (on_forward_input_choice T M ic tensor_list)) = cache M"
    by (simp add: on_forward_input_choice_cases select_then_reduce_cache split: option.splits)
  have 5: "cache (snd (reset S M))
       = (case fst (sample_search S (world M)) of Inl e \<Rightarrow> cache M | Inr decisions \<Rightarrow> decisions)"
    by (simp add: reset_def split: prod.splits sum.splits)
  from 1 2 3 4 5 show ?thesis by simp
qed


theorem cache_written_by_reset_only_witness:
  "cache (snd (export demo_sampler \<lparr>cache = Map.empty, world = 0\<rparr>)) = Map.empty
   \<and> cache (snd (on_forward_layer_choice tv_torch
        \<lparr>cache = [''conv'' \<mapsto> demo_mask], world = 0\<rparr> (demo_layer ''conv'' 3) 5))
      = [''conv'' \<mapsto> demo_mask]
   \<and> cache (snd (on_forward_input_choice tv_torch
        \<lparr>cache = [''conv'' \<mapsto> demo_mask], world = 0 :: nat\<rparr> (demo_input ''conv'' 3) [Num 1]))
      = [''conv'' \<mapsto> demo_mask]
   \<and> cache (snd (reset demo_sampler \<lparr>cache = Map.empty, world = 0\<rparr>)) = [''conv'' \<mapsto> demo_mask]
   \<and> cache (snd (reset base_sampler \<lparr>cache = [''conv'' \<mapsto> demo_mask], world = 0 :: nat\<rparr>))
      = [''conv'' \<mapsto> demo_mask]"
  by (simp add: cache_written_by_reset_only demo_sampler_def base_sampler_def)

end
